theory Spec2Isabelle
  imports Complex_Main "HOL-Library.Sublist"
begin

section \<open>Accessibility contrast audit: a shallow embedding of the Python scripts\<close>

text \<open>
  The development follows three scripts of the repository:
  \<^item> \<^verbatim>\<open>scripts/contrast-checker.py\<close>: \<^verbatim>\<open>get_contrast_ratio\<close>, \<^verbatim>\<open>parse_rgb\<close>,
    \<^verbatim>\<open>check_element_contrast\<close>, \<^verbatim>\<open>audit_page_contrast\<close>, \<^verbatim>\<open>main\<close>;
  \<^item> \<^verbatim>\<open>check-dialog-contrast.py\<close>: a second copy of \<^verbatim>\<open>get_contrast_ratio\<close>;
  \<^item> \<^verbatim>\<open>accessibility-audit.py\<close>: \<^verbatim>\<open>audit_page\<close> and \<^verbatim>\<open>main\<close>.

  Conventions of the model.
  \<^item> A Python \<^verbatim>\<open>float\<close> is read as the real number it denotes: rounding to binary64,
    overflow and underflow are not modelled. Infinities and NaN, which \<^verbatim>\<open>float()\<close> can
    return from a string, are values of their own.
  \<^item> A Python \<^verbatim>\<open>int\<close> is an \<^typ>\<open>int\<close>.
  \<^item> A Python \<^verbatim>\<open>str\<close> is a \<^typ>\<open>string\<close>, one \<^typ>\<open>char\<close> per code point, so the model
    covers the strings whose code points are below 256.
  \<^item> A raised exception is the left injection of a sum type.
\<close>

datatype py_error = ValueError | IndexError | TypeError | ZeroDivisionError | DriverError | IOError

subsection \<open>Contrast ratio (scripts/contrast-checker.py, lines 11 to 26)\<close>

text \<open>
  The three assignments of \<^verbatim>\<open>get_luminance\<close> apply one expression to each channel;
  \<open>linearize\<close> is that expression, after the division by 255.
\<close>

definition linearize :: "real \<Rightarrow> real" where
  "linearize c = (if c \<le> 0.03928 then c / 12.92 else ((c + 0.055) / 1.055) powr 2.4)"

definition get_luminance :: "int \<Rightarrow> int \<Rightarrow> int \<Rightarrow> real" where
  "get_luminance r g b =
     (let r1 = real_of_int r / 255; g1 = real_of_int g / 255; b1 = real_of_int b / 255;
          r2 = linearize r1; g2 = linearize g1; b2 = linearize b1
      in 0.2126 * r2 + 0.7152 * g2 + 0.0722 * b2)"

text \<open>
  The final division raises \<^verbatim>\<open>ZeroDivisionError\<close> in Python when the divisor is zero,
  which negative channels can reach; the model keeps that branch.
\<close>

definition get_contrast_ratio :: "int \<Rightarrow> int \<Rightarrow> int \<Rightarrow> int \<Rightarrow> int \<Rightarrow> int \<Rightarrow> py_error + real" where
  "get_contrast_ratio r1 g1 b1 r2 g2 b2 =
     (let l1 = get_luminance r1 g1 b1;
          l2 = get_luminance r2 g2 b2;
          lighter = max l1 l2;
          darker = min l1 l2
      in if darker + 0.05 = 0 then Inl ZeroDivisionError
         else Inr ((lighter + 0.05) / (darker + 0.05)))"

subsection \<open>Contrast ratio, second copy (check-dialog-contrast.py, lines 6 to 21)\<close>

definition linearize_dialog :: "real \<Rightarrow> real" where
  "linearize_dialog c = (if c \<le> 0.03928 then c / 12.92 else ((c + 0.055) / 1.055) powr 2.4)"

definition get_luminance_dialog :: "int \<Rightarrow> int \<Rightarrow> int \<Rightarrow> real" where
  "get_luminance_dialog r g b =
     (let r1 = real_of_int r / 255; g1 = real_of_int g / 255; b1 = real_of_int b / 255;
          r2 = linearize_dialog r1; g2 = linearize_dialog g1; b2 = linearize_dialog b1
      in 0.2126 * r2 + 0.7152 * g2 + 0.0722 * b2)"

definition get_contrast_ratio_dialog :: "int \<Rightarrow> int \<Rightarrow> int \<Rightarrow> int \<Rightarrow> int \<Rightarrow> int \<Rightarrow> py_error + real" where
  "get_contrast_ratio_dialog r1 g1 b1 r2 g2 b2 =
     (let l1 = get_luminance_dialog r1 g1 b1;
          l2 = get_luminance_dialog r2 g2 b2;
          lighter = max l1 l2;
          darker = min l1 l2
      in if darker + 0.05 = 0 then Inl ZeroDivisionError
         else Inr ((lighter + 0.05) / (darker + 0.05)))"

section \<open>Python built-ins used by the scripts\<close>

subsection \<open>Whitespace, \<^verbatim>\<open>str.strip\<close>, \<^verbatim>\<open>in\<close>, \<^verbatim>\<open>str.replace\<close>, \<^verbatim>\<open>str.split\<close>\<close>

text \<open>
  \<^verbatim>\<open>str.strip()\<close> removes the characters for which \<^verbatim>\<open>str.isspace\<close> holds; below
  code point 256 these are 9 to 13, 28 to 32, 133 and 160.
\<close>

definition py_isspace :: "char \<Rightarrow> bool" where
  "py_isspace c = (c \<in> set [CHR 0x09, CHR 0x0A, CHR 0x0B, CHR 0x0C, CHR 0x0D,
                               CHR 0x1C, CHR 0x1D, CHR 0x1E, CHR 0x1F, CHR 0x20,
                               CHR 0x85, CHR 0xA0])"

definition py_strip :: "string \<Rightarrow> string" where
  "py_strip s = rev (dropWhile py_isspace (rev (dropWhile py_isspace s)))"

text \<open>\<^verbatim>\<open>sub in s\<close> on strings: \<open>sub\<close> occurs in \<open>s\<close> as a contiguous block.\<close>

fun py_in :: "string \<Rightarrow> string \<Rightarrow> bool" where
  "py_in sub [] = (sub = [])"
| "py_in sub (c # cs) = (prefix sub (c # cs) \<or> py_in sub cs)"

text \<open>
  \<^verbatim>\<open>s.replace(old, new)\<close> replaces the occurrences of \<open>old\<close> from left to right,
  without overlap. With an empty \<open>old\<close> Python puts \<open>new\<close> before every character
  and at the end.
\<close>

function replace_nonempty :: "string \<Rightarrow> string \<Rightarrow> string \<Rightarrow> string" where
  "replace_nonempty old new [] = []"
| "replace_nonempty old new (c # cs) =
     (if old \<noteq> [] \<and> prefix old (c # cs)
      then new @ replace_nonempty old new (drop (length old) (c # cs))
      else c # replace_nonempty old new cs)"
  by pat_completeness auto
termination
  by (relation "measure (\<lambda>(old, new, s). length s)") auto

definition py_replace :: "string \<Rightarrow> string \<Rightarrow> string \<Rightarrow> string" where
  "py_replace old new s =
     (if old = [] then new @ concat (map (\<lambda>c. c # new) s) else replace_nonempty old new s)"

text \<open>\<^verbatim>\<open>s.split(sep)\<close> for a separator of one character; the result is never empty.\<close>

fun py_split :: "char \<Rightarrow> string \<Rightarrow> string list" where
  "py_split sep [] = [[]]"
| "py_split sep (c # cs) =
     (if c = sep then [] # py_split sep cs
      else (case py_split sep cs of
              [] \<Rightarrow> [[c]]
            | p # ps \<Rightarrow> (c # p) # ps))"

subsection \<open>\<^verbatim>\<open>str.isdigit\<close>, \<^verbatim>\<open>int()\<close> and \<^verbatim>\<open>float()\<close> on strings\<close>

definition py_isdecimal :: "char \<Rightarrow> bool" where
  "py_isdecimal c = (c \<in> set ''0123456789'')"

text \<open>
  \<^verbatim>\<open>str.isdigit\<close> also accepts the superscript digits (code points 178, 179, 185),
  which \<^verbatim>\<open>int()\<close> rejects; the empty string is not a digit string.
\<close>

definition py_isdigit :: "string \<Rightarrow> bool" where
  "py_isdigit s = (s \<noteq> [] \<and> list_all (\<lambda>c. py_isdecimal c \<or> c \<in> set [CHR 0xB2, CHR 0xB3, CHR 0xB9]) s)"

text \<open>
  \<^verbatim>\<open>int()\<close> and \<^verbatim>\<open>float()\<close> skip surrounding whitespace themselves: code points 9 to
  13, 32, 133 and 160 (not 28 to 31).
\<close>

definition num_isspace :: "char \<Rightarrow> bool" where
  "num_isspace c = (c \<in> set [CHR 0x09, CHR 0x0A, CHR 0x0B, CHR 0x0C, CHR 0x0D, CHR 0x20,
                                CHR 0x85, CHR 0xA0])"

definition num_strip :: "string \<Rightarrow> string" where
  "num_strip s = rev (dropWhile num_isspace (rev (dropWhile num_isspace s)))"

text \<open>A digit part: decimal digits, with single underscores allowed between two digits.\<close>

fun py_digitpart :: "string \<Rightarrow> bool" where
  "py_digitpart [] = False"
| "py_digitpart [c] = py_isdecimal c"
| "py_digitpart (c # d # cs) =
     (py_isdecimal c \<and> (if d = CHR ''_'' then py_digitpart cs else py_digitpart (d # cs)))"

definition digit_value :: "char \<Rightarrow> nat" where
  "digit_value c = of_char c - 48"

definition digits_value :: "string \<Rightarrow> nat" where
  "digits_value s = foldl (\<lambda>acc c. 10 * acc + digit_value c) 0 (filter py_isdecimal s)"

definition sign_split :: "string \<Rightarrow> bool \<times> string" where
  "sign_split s =
     (case s of
        [] \<Rightarrow> (False, [])
      | c # cs \<Rightarrow> if c = CHR ''-'' then (True, cs)
                  else if c = CHR ''+'' then (False, cs)
                  else (False, s))"

definition py_int :: "string \<Rightarrow> py_error + int" where
  "py_int s =
     (case sign_split (num_strip s) of
        (neg, ds) \<Rightarrow>
          if py_digitpart ds
          then Inr (if neg then - int (digits_value ds) else int (digits_value ds))
          else Inl ValueError)"

datatype pyfloat = Finite real | PosInf | NegInf | NaN

text \<open>\<open>x >= y\<close> and \<open>x == 0\<close> on floats: NaN compares false with everything.\<close>

fun float_ge :: "pyfloat \<Rightarrow> real \<Rightarrow> bool" where
  "float_ge (Finite x) y = (y \<le> x)"
| "float_ge PosInf y = True"
| "float_ge NegInf y = False"
| "float_ge NaN y = False"

fun float_is_zero :: "pyfloat \<Rightarrow> bool" where
  "float_is_zero (Finite x) = (x = 0)"
| "float_is_zero PosInf = False"
| "float_is_zero NegInf = False"
| "float_is_zero NaN = False"

definition ascii_lower :: "char \<Rightarrow> char" where
  "ascii_lower c =
     (case map_of (zip ''ABCDEFGHIJKLMNOPQRSTUVWXYZ'' ''abcdefghijklmnopqrstuvwxyz'') c of
        None \<Rightarrow> c
      | Some l \<Rightarrow> l)"

text \<open>\<open>cut_at P s\<close> cuts \<open>s\<close> at its first character satisfying \<open>P\<close>, which is dropped.\<close>

definition cut_at :: "(char \<Rightarrow> bool) \<Rightarrow> string \<Rightarrow> string \<times> string option" where
  "cut_at P s =
     (case dropWhile (\<lambda>c. \<not> P c) s of
        [] \<Rightarrow> (s, None)
      | c # rest \<Rightarrow> (takeWhile (\<lambda>c. \<not> P c) s, Some rest))"

text \<open>
  The grammar of \<^verbatim>\<open>float()\<close>: \<^verbatim>\<open>number ::= [digitpart] "." digitpart | digitpart ["."]\<close>,
  followed by an optional \<^verbatim>\<open>("e" | "E") ["+" | "-"] digitpart\<close>; or \<^verbatim>\<open>inf\<close>,
  \<^verbatim>\<open>infinity\<close>, \<^verbatim>\<open>nan\<close> in any case; all after an optional sign.
\<close>

definition py_mantissa :: "string \<Rightarrow> real option" where
  "py_mantissa m =
     (case cut_at (\<lambda>c. c = CHR ''.'') m of
        (ip, None) \<Rightarrow> if py_digitpart ip then Some (real (digits_value ip)) else None
      | (ip, Some fp) \<Rightarrow>
          if (ip = [] \<or> py_digitpart ip) \<and> (fp = [] \<or> py_digitpart fp) \<and> \<not> (ip = [] \<and> fp = [])
          then Some (real (digits_value ip)
                     + real (digits_value fp) / 10 ^ length (filter py_isdecimal fp))
          else None)"

definition py_exponent :: "string \<Rightarrow> int option" where
  "py_exponent e =
     (case sign_split e of
        (neg, ds) \<Rightarrow>
          if py_digitpart ds
          then Some (if neg then - int (digits_value ds) else int (digits_value ds))
          else None)"

definition scale10 :: "real \<Rightarrow> int \<Rightarrow> real" where
  "scale10 v k = (if 0 \<le> k then v * 10 ^ nat k else v / 10 ^ nat (- k))"

definition py_float :: "string \<Rightarrow> py_error + pyfloat" where
  "py_float s =
     (case sign_split (num_strip s) of
        (neg, body) \<Rightarrow>
          if map ascii_lower body = ''inf'' \<or> map ascii_lower body = ''infinity''
          then Inr (if neg then NegInf else PosInf)
          else if map ascii_lower body = ''nan'' then Inr NaN
          else (case cut_at (\<lambda>c. c = CHR ''e'' \<or> c = CHR ''E'') body of
                  (m, None) \<Rightarrow>
                    (case py_mantissa m of
                       None \<Rightarrow> Inl ValueError
                     | Some v \<Rightarrow> Inr (Finite (if neg then - v else v)))
                | (m, Some e) \<Rightarrow>
                    (case py_mantissa m of
                       None \<Rightarrow> Inl ValueError
                     | Some v \<Rightarrow>
                         (case py_exponent e of
                            None \<Rightarrow> Inl ValueError
                          | Some k \<Rightarrow> Inr (Finite (scale10 (if neg then - v else v) k))))))"

section \<open>Colour parsing (scripts/contrast-checker.py, lines 28 to 45)\<close>

text \<open>
  \<open>int_items parts idx\<close> is the generator \<^verbatim>\<open>int(parts[i].strip()) for i in idx\<close>,
  consumed by \<^verbatim>\<open>tuple\<close>: the first \<^verbatim>\<open>IndexError\<close> or \<^verbatim>\<open>ValueError\<close> ends it.
\<close>

fun int_items :: "string list \<Rightarrow> nat list \<Rightarrow> py_error + int list" where
  "int_items parts [] = Inr []"
| "int_items parts (i # idx) =
     (if length parts \<le> i then Inl IndexError
      else (case py_int (py_strip (parts ! i)) of
              Inl e \<Rightarrow> Inl e
            | Inr v \<Rightarrow>
                (case int_items parts idx of
                   Inl e \<Rightarrow> Inl e
                 | Inr vs \<Rightarrow> Inr (v # vs))))"

text \<open>\<open>int_each ps\<close> is the generator \<^verbatim>\<open>int(p.strip()) for p in ps\<close>.\<close>

fun int_each :: "string list \<Rightarrow> py_error + int list" where
  "int_each [] = Inr []"
| "int_each (p # ps) =
     (case py_int (py_strip p) of
        Inl e \<Rightarrow> Inl e
      | Inr v \<Rightarrow>
          (case int_each ps of
             Inl e \<Rightarrow> Inl e
           | Inr vs \<Rightarrow> Inr (v # vs)))"

text \<open>
  The result is \<^verbatim>\<open>None\<close> (the transparent marker) or a tuple of integers, here a list.
  In the \<^verbatim>\<open>rgb\<close> branch the tuple is built from \<^verbatim>\<open>parts[:3]\<close>, so it has one to
  three components.
\<close>

definition parse_rgb :: "string \<Rightarrow> py_error + int list option" where
  "parse_rgb color_string =
     (if color_string = [] \<or> color_string = ''rgba(0, 0, 0, 0)'' then Inr None
      else if py_in ''rgba'' color_string then
        (let parts = py_split (CHR '','') (py_replace '')'' [] (py_replace ''rgba('' [] color_string))
         in case (if 4 \<le> length parts
                  then (case py_float (py_strip (parts ! 3)) of
                          Inl e \<Rightarrow> Inl e
                        | Inr a \<Rightarrow> Inr (float_is_zero a))
                  else Inr False) of
              Inl e \<Rightarrow> Inl e
            | Inr True \<Rightarrow> Inr None
            | Inr False \<Rightarrow>
                (case int_items parts [0, 1, 2] of
                   Inl e \<Rightarrow> Inl e
                 | Inr t \<Rightarrow> Inr (Some t)))
      else if py_in ''rgb'' color_string then
        (let parts = py_split (CHR '','') (py_replace '')'' [] (py_replace ''rgb('' [] color_string))
         in case int_each (take 3 parts) of
              Inl e \<Rightarrow> Inl e
            | Inr t \<Rightarrow> Inr (Some t))
      else Inr None)"

section \<open>Checking one element (scripts/contrast-checker.py, lines 47 to 117)\<close>

text \<open>
  What the browser driver reports is data of the model. The first \<^verbatim>\<open>evaluate\<close> call
  returns the dictionary of computed styles; every value in it is a string.
\<close>

record styles =
  color :: string
  backgroundColor :: string
  fontSize :: string
  fontWeight :: string
  elem_text :: string

text \<open>
  An element as the script sees it: the answer of \<^verbatim>\<open>is_visible()\<close>, the answer of the
  first \<^verbatim>\<open>evaluate\<close>, and what the second \<^verbatim>\<open>evaluate\<close> reads, the computed
  \<^verbatim>\<open>backgroundColor\<close> of each ancestor from the parent up to the root. Each driver
  call can raise.
\<close>

record element =
  is_visible :: "py_error + bool"
  computed :: "py_error + styles"
  ancestors :: "py_error + string list"

text \<open>A loaded page answers \<^verbatim>\<open>page.locator(selector).first\<close>.\<close>

type_synonym page = "string \<Rightarrow> element"

text \<open>
  The JavaScript of the second \<^verbatim>\<open>evaluate\<close> (lines 74 to 84): the loop over
  \<^verbatim>\<open>parentElement\<close> returns the first background that is a non-empty string other
  than \<^verbatim>\<open>'rgba(0, 0, 0, 0)'\<close>, and \<^verbatim>\<open>'rgb(255, 255, 255)'\<close> after the root.
\<close>

fun parent_background :: "string list \<Rightarrow> string" where
  "parent_background [] = ''rgb(255, 255, 255)''"
| "parent_background (bg # rest) =
     (if bg \<noteq> [] \<and> bg \<noteq> ''rgba(0, 0, 0, 0)'' then bg else parent_background rest)"

text \<open>Truth value of \<^verbatim>\<open>None\<close> or a tuple: only a non-empty tuple is true.\<close>

fun truthy :: "int list option \<Rightarrow> bool" where
  "truthy None = False"
| "truthy (Some t) = (t \<noteq> [])"

text \<open>
  Lines 69 to 86: the element's own background is parsed; when that gives a false value,
  the ancestors are asked and their answer is parsed.
\<close>

definition resolve_background :: "element \<Rightarrow> styles \<Rightarrow> py_error + int list option" where
  "resolve_background el st =
     (case parse_rgb (backgroundColor st) of
        Inl e \<Rightarrow> Inl e
      | Inr bg_color \<Rightarrow>
          if \<not> truthy bg_color
          then (case ancestors el of
                  Inl e \<Rightarrow> Inl e
                | Inr bgs \<Rightarrow> parse_rgb (parent_background bgs))
          else Inr bg_color)"

text \<open>
  \<^verbatim>\<open>get_contrast_ratio(*color, *bg_color)\<close>: the call needs six positional arguments,
  and raises \<^verbatim>\<open>TypeError\<close> with any other number.
\<close>

definition call_contrast_ratio :: "int list \<Rightarrow> int list \<Rightarrow> py_error + real" where
  "call_contrast_ratio fg bg =
     (case fg @ bg of
        [r1, g1, b1, r2, g2, b2] \<Rightarrow> get_contrast_ratio r1 g1 b1 r2 g2 b2
      | _ \<Rightarrow> Inl TypeError)"

text \<open>Line 93: \<^verbatim>\<open>int(w) if w.isdigit() else 400\<close>.\<close>

definition font_weight_of :: "string \<Rightarrow> py_error + int" where
  "font_weight_of w = (if py_isdigit w then py_int w else Inr 400)"

text \<open>\<^verbatim>\<open>round(x, 2)\<close>: to the nearest hundredth, a tie to the even one.\<close>

definition py_round2 :: "real \<Rightarrow> real" where
  "py_round2 x =
     (let y = x * 100; f = floor y; d = y - of_int f
      in if d < 1 / 2 then of_int f / 100
         else if 1 / 2 < d then of_int (f + 1) / 100
         else if even f then of_int f / 100 else of_int (f + 1) / 100)"

text \<open>The dictionary returned at lines 101 to 113.\<close>

record contrast_check =
  cc_selector :: string
  cc_description :: string
  cc_text :: string
  cc_color :: string
  cc_backgroundColor :: string
  cc_fontSize :: string
  cc_fontWeight :: string
  contrastRatio :: real
  required :: real
  passes :: bool
  isLargeText :: bool

text \<open>
  The three results of \<^verbatim>\<open>check_element_contrast\<close>: \<^verbatim>\<open>None\<close>, the dictionary with
  the key \<^verbatim>\<open>'error'\<close> built by the \<^verbatim>\<open>except\<close> clause, and the check dictionary.
\<close>

datatype check_result = NoResult | ErrorResult string py_error | Check contrast_check

text \<open>Lines 88 to 113, once both colours are true values.\<close>

definition evaluate_contrast ::
  "string \<Rightarrow> string \<Rightarrow> styles \<Rightarrow> int list \<Rightarrow> int list \<Rightarrow> py_error + contrast_check" where
  "evaluate_contrast selector description st fg bg =
     (case call_contrast_ratio fg bg of
        Inl e \<Rightarrow> Inl e
      | Inr ratio \<Rightarrow>
          (case py_float (py_replace ''px'' [] (fontSize st)) of
             Inl e \<Rightarrow> Inl e
           | Inr font_size \<Rightarrow>
               (case font_weight_of (fontWeight st) of
                  Inl e \<Rightarrow> Inl e
                | Inr font_weight \<Rightarrow>
                    (let is_large = (float_ge font_size 24
                                     \<or> (float_ge font_size 18.66 \<and> 700 \<le> font_weight));
                         min_ratio = (if is_large then 3.0 else 4.5);
                         passes' = (min_ratio \<le> ratio)
                     in Inr \<lparr> cc_selector = selector,
                              cc_description = description,
                              cc_text = take 50 (elem_text st),
                              cc_color = color st,
                              cc_backgroundColor = backgroundColor st,
                              cc_fontSize = fontSize st,
                              cc_fontWeight = fontWeight st,
                              contrastRatio = py_round2 ratio,
                              required = min_ratio,
                              passes = passes',
                              isLargeText = is_large \<rparr>))))"

text \<open>The body of the \<^verbatim>\<open>try\<close> block: an exception, \<^verbatim>\<open>None\<close>, or a check.\<close>

definition check_element_body ::
  "page \<Rightarrow> string \<Rightarrow> string \<Rightarrow> py_error + contrast_check option" where
  "check_element_body page selector description =
     (let el = page selector
      in case is_visible el of
           Inl e \<Rightarrow> Inl e
         | Inr visible \<Rightarrow>
             if \<not> visible then Inr None
             else (case computed el of
                     Inl e \<Rightarrow> Inl e
                   | Inr st \<Rightarrow>
                       (case parse_rgb (color st) of
                          Inl e \<Rightarrow> Inl e
                        | Inr fg \<Rightarrow>
                            (case resolve_background el st of
                               Inl e \<Rightarrow> Inl e
                             | Inr bg \<Rightarrow>
                                 if truthy fg \<and> truthy bg
                                 then (case fg of
                                         None \<Rightarrow> Inr None
                                       | Some f \<Rightarrow>
                                           (case bg of
                                              None \<Rightarrow> Inr None
                                            | Some b \<Rightarrow>
                                                (case evaluate_contrast selector description
                                                        st f b of
                                                   Inl e \<Rightarrow> Inl e
                                                 | Inr c \<Rightarrow> Inr (Some c))))
                                 else Inr None))))"

definition check_element_contrast :: "page \<Rightarrow> string \<Rightarrow> string \<Rightarrow> check_result" where
  "check_element_contrast page selector description =
     (case check_element_body page selector description of
        Inl e \<Rightarrow> ErrorResult selector e
      | Inr None \<Rightarrow> NoResult
      | Inr (Some c) \<Rightarrow> Check c)"

section \<open>Auditing pages for contrast (scripts/contrast-checker.py, lines 119 to 234)\<close>

record selector_info =
  selector :: string
  description :: string

record check_job =
  job_url :: string
  job_name :: string
  selectors :: "selector_info list"

text \<open>
  The loop of lines 129 to 147: a result is appended when it is a true value without
  the key \<^verbatim>\<open>'error'\<close>, that is, when it is a check dictionary.
\<close>

fun collect_checks :: "page \<Rightarrow> selector_info list \<Rightarrow> contrast_check list" where
  "collect_checks page [] = []"
| "collect_checks page (si # rest) =
     (case check_element_contrast page (selector si) (description si) of
        Check c \<Rightarrow> c # collect_checks page rest
      | NoResult \<Rightarrow> collect_checks page rest
      | ErrorResult sel e \<Rightarrow> collect_checks page rest)"

text \<open>
  The browser session answers \<^verbatim>\<open>page.goto(url)\<close> (with the wait that follows) by an
  exception or by the loaded page. The \<^verbatim>\<open>except\<close> clause returns the empty list.
\<close>

type_synonym session = "string \<Rightarrow> py_error + page"

definition audit_page_contrast ::
  "session \<Rightarrow> string \<Rightarrow> string \<Rightarrow> selector_info list \<Rightarrow> contrast_check list" where
  "audit_page_contrast goto url name sels =
     (case goto url of
        Inl e \<Rightarrow> []
      | Inr page \<Rightarrow> collect_checks page sels)"

definition checks :: "check_job list" where
  "checks =
     [\<lparr> job_url = ''http://localhost:3000/admin/login'', job_name = ''Admin Login'',
        selectors =
          [\<lparr> selector = ''h1, h2, h3'', description = ''Login page header'' \<rparr>,
           \<lparr> selector = ''label'', description = ''Form labels (Email/Password)'' \<rparr>,
           \<lparr> selector = ''input::placeholder'', description = ''Input placeholders'' \<rparr>,
           \<lparr> selector = ''button'', description = ''Sign In button text'' \<rparr>] \<rparr>,
      \<lparr> job_url = ''http://localhost:3000/amenities'', job_name = ''Amenities Page'',
        selectors =
          [\<lparr> selector = ''h1'', description = ''Page title'' \<rparr>,
           \<lparr> selector = ''h2'', description = ''Section headings'' \<rparr>,
           \<lparr> selector = ''p'', description = ''Body text'' \<rparr>,
           \<lparr> selector = ''label'', description = ''Form labels'' \<rparr>] \<rparr>,
      \<lparr> job_url = ''http://localhost:3000'', job_name = ''Home Page'',
        selectors =
          [\<lparr> selector = ''h1'', description = ''Main heading'' \<rparr>,
           \<lparr> selector = ''h2'', description = ''Section headings'' \<rparr>,
           \<lparr> selector = ''p'', description = ''Body text'' \<rparr>,
           \<lparr> selector = ''nav a'', description = ''Navigation links'' \<rparr>] \<rparr>]"

text \<open>
  The world of one run of the script: whether the browser starts, what each navigation
  gives, and whether \<^verbatim>\<open>open\<close> and \<^verbatim>\<open>json.dump\<close> of the report succeed.
\<close>

record contrast_env =
  ce_launch :: "py_error option"
  ce_goto :: session
  ce_write_report :: "py_error option"

record contrast_summary =
  all_results :: "contrast_check list"
  n_passes :: nat
  n_failures :: nat

text \<open>
  \<open>run_checks\<close> is the loop of lines 199 to 206 over a list of jobs; \<open>main_contrast\<close> is
  \<^verbatim>\<open>main\<close>. Nothing in \<^verbatim>\<open>main\<close> catches an exception, so a failing launch or a
  failing write of the report ends the run with that exception.
\<close>

fun run_checks :: "session \<Rightarrow> check_job list \<Rightarrow> contrast_check list" where
  "run_checks goto [] = []"
| "run_checks goto (job # jobs) =
     audit_page_contrast goto (job_url job) (job_name job) (selectors job) @ run_checks goto jobs"

definition main_contrast :: "contrast_env \<Rightarrow> py_error + contrast_summary" where
  "main_contrast env =
     (case ce_launch env of
        Some e \<Rightarrow> Inl e
      | None \<Rightarrow>
          (let results = run_checks (ce_goto env) checks;
               failures = filter (\<lambda>r. \<not> passes r) results;
               passing = filter (\<lambda>r. passes r) results
           in case ce_write_report env of
                Some e \<Rightarrow> Inl e
              | None \<Rightarrow> Inr \<lparr> all_results = results,
                               n_passes = length passing,
                               n_failures = length failures \<rparr>))"

section \<open>The rule-scanner audit (accessibility-audit.py)\<close>

text \<open>
  A violation as the scanner reports it; the script reads its \<^verbatim>\<open>id\<close> and, for
  display, \<^verbatim>\<open>help\<close>, \<^verbatim>\<open>impact\<close> and \<^verbatim>\<open>nodes\<close>.
\<close>

record violation =
  v_id :: string
  v_impact :: string
  v_help :: string
  v_nodes :: nat

text \<open>
  \<^verbatim>\<open>run_axe_audit\<close> returns the scanner's results, or \<^verbatim>\<open>{ error: message }\<close> when
  the scanner threw.
\<close>

datatype axe_results = AxeError string | AxeReport "violation list"

text \<open>
  One visit of a page, in the order of the calls in \<^verbatim>\<open>audit_page\<close>: navigation and
  wait; directory and screenshot; injection of the scanner; the scanner's run; the
  write of the page's JSON file.
\<close>

record page_visit =
  pv_goto :: "py_error option"
  pv_screenshot :: "py_error option"
  pv_inject :: "py_error option"
  pv_axe :: "py_error + axe_results"
  pv_write_json :: "py_error option"

record page_result =
  pr_name :: string
  pr_url :: string
  total_violations :: nat
  contrast_violations :: nat
  violations :: "violation list"

text \<open>
  \<^verbatim>\<open>audit_page\<close> (lines 63 to 131). Every exception raised inside the \<^verbatim>\<open>try\<close>
  block reaches the \<^verbatim>\<open>except\<close> clause, which returns \<^verbatim>\<open>None\<close>; so does an
  \<^verbatim>\<open>'error'\<close> key in the scanner's answer. The display loop of lines 100 to 119
  only prints.
\<close>

definition audit_page :: "page_visit \<Rightarrow> string \<Rightarrow> string \<Rightarrow> page_result option" where
  "audit_page visit url name =
     (case pv_goto visit of
        Some e \<Rightarrow> None
      | None \<Rightarrow>
     (case pv_screenshot visit of
        Some e \<Rightarrow> None
      | None \<Rightarrow>
     (case pv_inject visit of
        Some e \<Rightarrow> None
      | None \<Rightarrow>
     (case pv_axe visit of
        Inl e \<Rightarrow> None
      | Inr (AxeError msg) \<Rightarrow> None
      | Inr (AxeReport vs) \<Rightarrow>
     (case pv_write_json visit of
        Some e \<Rightarrow> None
      | None \<Rightarrow>
          (let contrast = filter (\<lambda>v. py_in ''color-contrast'' (v_id v)) vs
           in Some \<lparr> pr_name = name, pr_url = url,
                     total_violations = length vs,
                     contrast_violations = length contrast,
                     violations = vs \<rparr>))))))"

record page_info =
  pi_url :: string
  pi_name :: string

definition pages_to_audit :: "page_info list" where
  "pages_to_audit =
     [\<lparr> pi_url = ''http://localhost:3000'', pi_name = ''home'' \<rparr>,
      \<lparr> pi_url = ''http://localhost:3000/admin/login'', pi_name = ''admin-login'' \<rparr>,
      \<lparr> pi_url = ''http://localhost:3000/admin'', pi_name = ''admin-dashboard'' \<rparr>,
      \<lparr> pi_url = ''http://localhost:3000/amenities'', pi_name = ''amenities'' \<rparr>]"

text \<open>
  The loop of lines 143 to 146 (\<open>audit_all\<close>): a page whose audit returned \<^verbatim>\<open>None\<close>
  adds nothing to \<^verbatim>\<open>results\<close>.
\<close>

fun audit_all :: "(string \<Rightarrow> page_visit) \<Rightarrow> page_info list \<Rightarrow> page_result list" where
  "audit_all visit [] = []"
| "audit_all visit (p # ps) =
     (case audit_page (visit (pi_url p)) (pi_url p) (pi_name p) of
        None \<Rightarrow> audit_all visit ps
      | Some r \<Rightarrow> r # audit_all visit ps)"

record audit_env =
  ae_launch :: "py_error option"
  ae_visit :: "string \<Rightarrow> page_visit"

record audit_summary =
  results :: "page_result list"
  sum_violations :: nat
  sum_contrast :: nat

definition main_audit :: "audit_env \<Rightarrow> py_error + audit_summary" where
  "main_audit env =
     (case ae_launch env of
        Some e \<Rightarrow> Inl e
      | None \<Rightarrow>
          (let rs = audit_all (ae_visit env) pages_to_audit
           in Inr \<lparr> results = rs,
                    sum_violations = sum_list (map total_violations rs),
                    sum_contrast = sum_list (map contrast_violations rs) \<rparr>))"

section \<open>Sample observations\<close>

text \<open>
  Concrete observations, used to run the definitions: white text with the keyword
  \<^verbatim>\<open>bold\<close> as weight and a transparent background of its own, under a given chain
  of ancestors.
\<close>

definition sample_styles :: styles where
  "sample_styles =
     \<lparr> color = ''rgb(255, 255, 255)'', backgroundColor = ''rgba(0, 0, 0, 0)'',
       fontSize = ''20px'', fontWeight = ''bold'', elem_text = ''Sign In'' \<rparr>"

definition sample_element :: "string list \<Rightarrow> element" where
  "sample_element bgs =
     \<lparr> is_visible = Inr True, computed = Inr sample_styles, ancestors = Inr bgs \<rparr>"

text \<open>
  A page with a button over a black ancestor, a label whose own colour is transparent,
  a paragraph whose only ancestor has a white background of alpha 0, and nothing else
  visible.
\<close>

definition sample_page :: page where
  "sample_page sel =
     (if sel = ''button'' then sample_element [''rgba(0, 0, 0, 0)'', ''rgb(0, 0, 0)'']
      else if sel = ''label''
        then \<lparr> is_visible = Inr True,
               computed = Inr (sample_styles \<lparr> color := ''rgba(0, 0, 0, 0)'' \<rparr>),
               ancestors = Inr [''rgb(0, 0, 0)''] \<rparr>
      else if sel = ''p'' then sample_element [''rgba(255, 255, 255, 0)'']
      else \<lparr> is_visible = Inr False, computed = Inl DriverError, ancestors = Inl DriverError \<rparr>)"


text \<open>A visit where the scanner throws, and a visit where the JSON file cannot be written.\<close>

definition scanner_failed_visit :: page_visit where
  "scanner_failed_visit =
     \<lparr> pv_goto = None, pv_screenshot = None, pv_inject = None,
       pv_axe = Inr (AxeError ''axe is not defined''), pv_write_json = None \<rparr>"

definition write_failed_visit :: page_visit where
  "write_failed_visit =
     \<lparr> pv_goto = None, pv_screenshot = None, pv_inject = None,
       pv_axe = Inr (AxeReport [\<lparr> v_id = ''color-contrast'', v_impact = ''serious'',
                                   v_help = ''Elements must meet minimum color contrast'',
                                   v_nodes = 3 \<rparr>]),
       pv_write_json = Some IOError \<rparr>"

text \<open>
  Two headings on a black background: grey text at 24px with weight 400, and white text
  at 20px with weight 700; with the check dictionaries the script builds for them.
\<close>

definition grey_styles :: styles where
  "grey_styles =
     \<lparr> color = ''rgb(89, 89, 89)'', backgroundColor = ''rgb(0, 0, 0)'',
       fontSize = ''24px'', fontWeight = ''400'', elem_text = ''Welcome'' \<rparr>"

definition bold_styles :: styles where
  "bold_styles =
     \<lparr> color = ''rgb(255, 255, 255)'', backgroundColor = ''rgb(0, 0, 0)'',
       fontSize = ''20px'', fontWeight = ''700'', elem_text = ''Amenities'' \<rparr>"

definition heading_page :: page where
  "heading_page sel =
     (if sel = ''h1''
        then \<lparr> is_visible = Inr True, computed = Inr grey_styles, ancestors = Inr [] \<rparr>
      else if sel = ''h2''
        then \<lparr> is_visible = Inr True, computed = Inr bold_styles, ancestors = Inr [] \<rparr>
      else \<lparr> is_visible = Inr False, computed = Inl DriverError, ancestors = Inl DriverError \<rparr>)"

definition grey_check :: contrast_check where
  "grey_check =
     \<lparr> cc_selector = ''h1'', cc_description = ''Main heading'',
       cc_text = ''Welcome'', cc_color = ''rgb(89, 89, 89)'',
       cc_backgroundColor = ''rgb(0, 0, 0)'', cc_fontSize = ''24px'',
       cc_fontWeight = ''400'', contrastRatio = 3, required = 3,
       passes = False, isLargeText = True \<rparr>"

definition bold_check :: contrast_check where
  "bold_check =
     \<lparr> cc_selector = ''h2'', cc_description = ''Section headings'',
       cc_text = ''Amenities'', cc_color = ''rgb(255, 255, 255)'',
       cc_backgroundColor = ''rgb(0, 0, 0)'', cc_fontSize = ''20px'',
       cc_fontWeight = ''700'', contrastRatio = 21, required = 3,
       passes = True, isLargeText = True \<rparr>"

text \<open>A page whose elements report their colour in the \<^verbatim>\<open>color()\<close> notation.\<close>

definition srgb_page :: page where
  "srgb_page sel =
     \<lparr> is_visible = Inr True,
       computed = Inr (sample_styles \<lparr> color := ''color(srgb 1 0 0)'' \<rparr>),
       ancestors = Inr [] \<rparr>"

section \<open>Properties of the contrast ratio\<close>

lemma linearize_nonneg: "0 \<le> c \<Longrightarrow> 0 \<le> linearize c"
  by (simp add: linearize_def)

lemma get_luminance_nonneg:
  assumes "0 \<le> r" "0 \<le> g" "0 \<le> b"
  shows "0 \<le> get_luminance r g b"
proof -
  have "0 \<le> linearize (real_of_int r / 255)"
    and "0 \<le> linearize (real_of_int g / 255)"
    and "0 \<le> linearize (real_of_int b / 255)"
    using assms by (simp_all add: linearize_nonneg)
  then show ?thesis
    by (simp add: get_luminance_def Let_def)
qed

lemma ratio_ge_one:
  fixes l1 l2 :: real
  assumes "0 \<le> l1" "0 \<le> l2"
  shows "1 \<le> (max l1 l2 + 0.05) / (min l1 l2 + 0.05)"
proof -
  have pos: "0 < min l1 l2 + 0.05"
    using assms by (simp add: min_def)
  have "min l1 l2 + 0.05 \<le> max l1 l2 + 0.05"
    by (simp add: min_def max_def)
  with pos show ?thesis
    by (simp add: le_divide_eq)
qed

text \<open>
  C7. The contrast ratio is symmetric in its two colours: exchanging the foreground and
  the background triple gives the same result, the raised error included.
\<close>

theorem contrast_symmetric:
  "get_contrast_ratio r1 g1 b1 r2 g2 b2 = get_contrast_ratio r2 g2 b2 r1 g1 b1"
  by (simp add: get_contrast_ratio_def Let_def max.commute min.commute)

text \<open>
  C8. For two colours with every channel between 0 and 255 the contrast ratio is
  computed (no division by zero) and is at least 1; the ratio of a colour against
  itself is exactly 1.
\<close>

theorem contrast_at_least_one:
  assumes "0 \<le> r1 \<and> r1 \<le> 255" "0 \<le> g1 \<and> g1 \<le> 255" "0 \<le> b1 \<and> b1 \<le> 255"
    and "0 \<le> r2 \<and> r2 \<le> 255" "0 \<le> g2 \<and> g2 \<le> 255" "0 \<le> b2 \<and> b2 \<le> 255"
  shows "(\<exists>x. get_contrast_ratio r1 g1 b1 r2 g2 b2 = Inr x \<and> 1 \<le> x)
       \<and> get_contrast_ratio r1 g1 b1 r1 g1 b1 = Inr 1"
proof -
  have l1: "0 \<le> get_luminance r1 g1 b1"
    using assms by (simp add: get_luminance_nonneg)
  have l2: "0 \<le> get_luminance r2 g2 b2"
    using assms by (simp add: get_luminance_nonneg)
  have d: "min (get_luminance r1 g1 b1) (get_luminance r2 g2 b2) + 0.05 \<noteq> 0"
    using l1 l2 by (simp add: min_def)
  have "get_contrast_ratio r1 g1 b1 r2 g2 b2 =
      Inr ((max (get_luminance r1 g1 b1) (get_luminance r2 g2 b2) + 0.05)
         / (min (get_luminance r1 g1 b1) (get_luminance r2 g2 b2) + 0.05))"
    using d by (simp add: get_contrast_ratio_def Let_def)
  moreover have "1 \<le> (max (get_luminance r1 g1 b1) (get_luminance r2 g2 b2) + 0.05)
         / (min (get_luminance r1 g1 b1) (get_luminance r2 g2 b2) + 0.05)"
    using l1 l2 by (rule ratio_ge_one)
  moreover have "get_contrast_ratio r1 g1 b1 r1 g1 b1 = Inr 1"
    using l1 by (simp add: get_contrast_ratio_def Let_def)
  ultimately show ?thesis
    by simp
qed

theorem contrast_at_least_one_witness:
  "(\<exists>x. get_contrast_ratio 6 37 28 13 69 56 = Inr x \<and> 1 \<le> x)
   \<and> get_contrast_ratio 6 37 28 6 37 28 = Inr 1"
  using contrast_at_least_one [of 6 37 28 13 69 56] by simp

text \<open>
  C9. The copy of the contrast ratio in check-dialog-contrast.py and the copy in
  scripts/contrast-checker.py return the same value on every input.
\<close>

theorem contrast_copies_equal:
  "get_contrast_ratio_dialog r1 g1 b1 r2 g2 b2 = get_contrast_ratio r1 g1 b1 r2 g2 b2"
proof -
  have lin: "linearize_dialog = linearize"
    by (rule ext) (simp add: linearize_dialog_def linearize_def)
  have lum: "get_luminance_dialog = get_luminance"
    by (intro ext) (simp add: get_luminance_dialog_def get_luminance_def lin)
  show ?thesis
    by (simp add: get_contrast_ratio_dialog_def get_contrast_ratio_def lum)
qed

section \<open>Properties of the colour parser\<close>

lemmas eval_defs = parse_rgb_def py_replace_def py_int_def py_float_def py_mantissa_def
  py_exponent_def scale10_def cut_at_def ascii_lower_def py_strip_def num_strip_def
  sign_split_def py_isspace_def num_isspace_def py_isdecimal_def py_isdigit_def
  digits_value_def digit_value_def

lemma py_in_rgba_rgb: "py_in ''rgba'' s \<Longrightarrow> py_in ''rgb'' s"
proof (induction s)
  case Nil
  then show ?case by simp
next
  case (Cons c cs)
  have "prefix ''rgb'' ''rgba''" by simp
  then have "prefix ''rgba'' (c # cs) \<Longrightarrow> prefix ''rgb'' (c # cs)"
    using prefix_order.trans by blast
  with Cons show ?case by auto
qed

lemma py_int_error: "py_int s = Inl e \<Longrightarrow> e = ValueError"
  by (auto simp: py_int_def split: prod.splits if_splits)

lemma py_float_error: "py_float s = Inl e \<Longrightarrow> e = ValueError"
  by (auto simp: py_float_def split: prod.splits if_splits option.splits)

lemma int_items_error:
  "int_items parts idx = Inl e \<Longrightarrow> e = ValueError \<or> e = IndexError"
  by (induction idx) (auto split: if_splits sum.splits dest: py_int_error)

lemma int_items_length: "int_items parts idx = Inr t \<Longrightarrow> length t = length idx"
  by (induction idx arbitrary: t) (auto split: if_splits sum.splits)

lemma int_each_error: "int_each ps = Inl e \<Longrightarrow> e = ValueError"
  by (induction ps) (auto split: sum.splits dest: py_int_error)

lemma int_each_length: "int_each ps = Inr t \<Longrightarrow> length t = length ps"
  by (induction ps arbitrary: t) (auto split: sum.splits)

lemma py_split_nonempty: "py_split sep s \<noteq> []"
  by (induction s) (auto split: list.splits)

lemma parse_rgb_no_rgb: "\<not> py_in ''rgb'' s \<Longrightarrow> parse_rgb s = Inr None"
  using py_in_rgba_rgb [of s] by (auto simp: parse_rgb_def)

lemma parse_rgb_error:
  assumes "parse_rgb s = Inl e"
  shows "py_in ''rgb'' s \<and> (e = ValueError \<or> e = IndexError)"
proof -
  have "py_in ''rgb'' s"
    using assms parse_rgb_no_rgb [of s] by auto
  moreover have "e = ValueError \<or> e = IndexError"
    using assms
    by (auto simp: parse_rgb_def Let_def simp del: int_items.simps int_each.simps
        split: if_splits sum.splits bool.splits
        dest: py_float_error int_items_error int_each_error)
  ultimately show ?thesis by simp
qed

lemma parse_rgb_tuple:
  assumes "parse_rgb s = Inr (Some t)"
  shows "1 \<le> length t \<and> length t \<le> 3"
proof -
  have "0 < length (py_split (CHR '','') u)" for u
    using py_split_nonempty [of "CHR '',''" u] by simp
  then have "1 \<le> length (take 3 (py_split (CHR '','') u))" for u
    by (simp add: Suc_le_eq)
  then show ?thesis
    using assms
    by (auto simp: parse_rgb_def Let_def simp del: int_items.simps int_each.simps
        split: if_splits sum.splits bool.splits
        dest!: int_items_length int_each_length)
qed

lemma parse_rgb_rgba_triple:
  assumes "parse_rgb s = Inr (Some t)" and "py_in ''rgba'' s"
  shows "length t = 3"
  using assms
  by (auto simp: parse_rgb_def Let_def simp del: int_items.simps int_each.simps
      split: if_splits sum.splits bool.splits dest!: int_items_length)

lemma check_element_catches:
  assumes "is_visible (page sel) = Inr True"
    and "computed (page sel) = Inr st"
    and "parse_rgb (color st) = Inl e
         \<or> ((\<exists>fg. parse_rgb (color st) = Inr fg) \<and> parse_rgb (backgroundColor st) = Inl e)"
  shows "check_element_contrast page sel d = ErrorResult sel e"
  using assms
  by (auto simp: check_element_contrast_def check_element_body_def resolve_background_def
      Let_def)

text \<open>
  C2, as the claim states it, fails twice. The computed colour \<^verbatim>\<open>color(srgb 1 0 0)\<close>
  contains \<^verbatim>\<open>rgb\<close>, so the \<^verbatim>\<open>rgb\<close> branch calls \<^verbatim>\<open>int\<close> on
  \<^verbatim>\<open>color(srgb 1 0 0\<close>, which raises \<^verbatim>\<open>ValueError\<close>. And \<^verbatim>\<open>rgb(1, 2)\<close> is
  returned as the pair (1, 2), which is neither a triple nor the transparent marker.
\<close>

theorem parse_rgb_raises_or_short:
  "parse_rgb ''color(srgb 1 0 0)'' = Inl ValueError
   \<and> parse_rgb ''rgb(1, 2)'' = Inr (Some [1, 2])"
  by (simp add: eval_defs)

text \<open>
  C2, amended. \<^verbatim>\<open>parse_rgb\<close> is total. The empty string and every string that does not
  contain \<^verbatim>\<open>rgb\<close> give the transparent marker. An exception is raised only for a string
  that contains \<^verbatim>\<open>rgb\<close>, and it is \<^verbatim>\<open>ValueError\<close> or \<^verbatim>\<open>IndexError\<close>. A returned tuple
  has exactly three components when the string contains \<^verbatim>\<open>rgba\<close>, and one to three
  otherwise. When \<^verbatim>\<open>parse_rgb\<close> raises on the colour of a visible element, or on its
  own background after the colour was parsed, \<^verbatim>\<open>check_element_contrast\<close> catches the
  exception and returns the dictionary with the key \<^verbatim>\<open>'error'\<close>.
\<close>

theorem parse_rgb_behaviour:
  "parse_rgb [] = Inr None
   \<and> (\<not> py_in ''rgb'' s \<longrightarrow> parse_rgb s = Inr None)
   \<and> (parse_rgb s = Inl e \<longrightarrow> py_in ''rgb'' s \<and> (e = ValueError \<or> e = IndexError))
   \<and> (parse_rgb s = Inr (Some t) \<longrightarrow>
        (if py_in ''rgba'' s then length t = 3 else 1 \<le> length t \<and> length t \<le> 3))
   \<and> (is_visible (page sel) = Inr True \<and> computed (page sel) = Inr st
        \<and> (parse_rgb (color st) = Inl e
            \<or> ((\<exists>fg. parse_rgb (color st) = Inr fg) \<and> parse_rgb (backgroundColor st) = Inl e))
        \<longrightarrow> check_element_contrast page sel d = ErrorResult sel e)"
proof -
  have a: "parse_rgb [] = Inr None"
    by (simp add: parse_rgb_def)
  have b: "\<not> py_in ''rgb'' s \<longrightarrow> parse_rgb s = Inr None"
    using parse_rgb_no_rgb [of s] by blast
  have c: "parse_rgb s = Inl e \<longrightarrow> py_in ''rgb'' s \<and> (e = ValueError \<or> e = IndexError)"
    using parse_rgb_error [of s e] by blast
  have d: "parse_rgb s = Inr (Some t) \<longrightarrow>
        (if py_in ''rgba'' s then length t = 3 else 1 \<le> length t \<and> length t \<le> 3)"
    using parse_rgb_tuple [of s t] parse_rgb_rgba_triple [of s t] by simp
  have e: "is_visible (page sel) = Inr True \<and> computed (page sel) = Inr st
        \<and> (parse_rgb (color st) = Inl e
            \<or> ((\<exists>fg. parse_rgb (color st) = Inr fg) \<and> parse_rgb (backgroundColor st) = Inl e))
        \<longrightarrow> check_element_contrast page sel d = ErrorResult sel e"
    using check_element_catches [of page sel st e d] by blast
  show ?thesis
    using a b c d e by blast
qed

theorem parse_rgb_behaviour_witness:
  "\<not> py_in ''rgb'' ''transparent'' \<and> parse_rgb ''transparent'' = Inr None
   \<and> parse_rgb ''rgba(1, 2)'' = Inl IndexError \<and> py_in ''rgb'' ''rgba(1, 2)''
   \<and> parse_rgb ''rgba(13, 69, 56, 0.5)'' = Inr (Some [13, 69, 56])
   \<and> py_in ''rgba'' ''rgba(13, 69, 56, 0.5)'' \<and> length [13, 69, 56 :: int] = 3
   \<and> parse_rgb ''rgb(1, 2)'' = Inr (Some [1, 2]) \<and> \<not> py_in ''rgba'' ''rgb(1, 2)''
   \<and> 1 \<le> length [1, 2 :: int] \<and> length [1, 2 :: int] \<le> 3
   \<and> parse_rgb (color (sample_styles \<lparr> color := ''color(srgb 1 0 0)'' \<rparr>)) = Inl ValueError
   \<and> check_element_contrast srgb_page ''p'' ''Body text'' = ErrorResult ''p'' ValueError"
proof -
  have a: "\<not> py_in ''rgb'' ''transparent''"
    by simp
  have b: "parse_rgb ''rgba(1, 2)'' = Inl IndexError"
    by (simp add: eval_defs)
  have c: "parse_rgb ''rgba(13, 69, 56, 0.5)'' = Inr (Some [13, 69, 56])"
    by (simp add: eval_defs)
  have c': "py_in ''rgba'' ''rgba(13, 69, 56, 0.5)''"
    by simp
  have d: "parse_rgb ''rgb(1, 2)'' = Inr (Some [1, 2])"
    by (simp add: eval_defs)
  have d': "\<not> py_in ''rgba'' ''rgb(1, 2)''"
    by simp
  have e: "parse_rgb (color (sample_styles \<lparr> color := ''color(srgb 1 0 0)'' \<rparr>)) = Inl ValueError"
    by (simp add: eval_defs)
  have v: "is_visible (srgb_page ''p'') = Inr True"
    and st: "computed (srgb_page ''p'') = Inr (sample_styles \<lparr> color := ''color(srgb 1 0 0)'' \<rparr>)"
    by (simp_all add: srgb_page_def)
  have l2: "length [1, 2 :: int] = 2" and l3: "length [13, 69, 56 :: int] = 3"
    by simp_all
  show ?thesis
    using a b c c' d d' e v st l2 l3
      parse_rgb_behaviour [where s = "''transparent''"]
      parse_rgb_behaviour [where s = "''rgba(1, 2)''" and e = IndexError]
      parse_rgb_behaviour [where s = "''rgba(13, 69, 56, 0.5)''" and t = "[13, 69, 56]"]
      parse_rgb_behaviour [where s = "''rgb(1, 2)''" and t = "[1, 2]"]
      parse_rgb_behaviour [where page = srgb_page and sel = "''p''" and e = ValueError
        and st = "sample_styles \<lparr> color := ''color(srgb 1 0 0)'' \<rparr>" and d = "''Body text''"]
    by (metis (no_types, lifting))
qed

section \<open>Properties of the background resolution\<close>

lemma parent_background_default:
  "\<forall>b \<in> set bgs. b = [] \<or> b = ''rgba(0, 0, 0, 0)''
   \<Longrightarrow> parent_background bgs = ''rgb(255, 255, 255)''"
  by (induction bgs) auto

lemma parse_white: "parse_rgb ''rgb(255, 255, 255)'' = Inr (Some [255, 255, 255])"
  by (simp add: eval_defs)

text \<open>
  When every ancestor reports the empty string or the literal \<^verbatim>\<open>rgba(0, 0, 0, 0)\<close>,
  the walk reaches its default and the resolved background is white.
\<close>

lemma resolve_background_white:
  assumes "parse_rgb (backgroundColor st) = Inr None"
    and "ancestors el = Inr bgs"
    and "\<forall>b \<in> set bgs. b = [] \<or> b = ''rgba(0, 0, 0, 0)''"
  shows "resolve_background el st = Inr (Some [255, 255, 255])"
  using assms parent_background_default [of bgs]
  by (simp add: resolve_background_def parse_white)

lemma resolve_background_white_sample:
  "resolve_background (sample_element [''rgba(0, 0, 0, 0)'', [], ''rgba(0, 0, 0, 0)''])
     sample_styles = Inr (Some [255, 255, 255])"
proof -
  have a: "parse_rgb (backgroundColor sample_styles) = Inr None"
    by (simp add: sample_styles_def parse_rgb_def)
  have b: "ancestors (sample_element [''rgba(0, 0, 0, 0)'', [], ''rgba(0, 0, 0, 0)''])
             = Inr [''rgba(0, 0, 0, 0)'', [], ''rgba(0, 0, 0, 0)'']"
    by (simp add: sample_element_def)
  have c: "\<forall>b \<in> set [''rgba(0, 0, 0, 0)'', [], ''rgba(0, 0, 0, 0)''].
             b = [] \<or> b = ''rgba(0, 0, 0, 0)''"
    by simp
  show ?thesis
    using resolve_background_white [OF a b c] .
qed

text \<open>
  C3. The code does not do what the claim says when an ancestor is transparent with a
  colour other than black. \<^verbatim>\<open>rgba(255, 255, 255, 0)\<close> is transparent for
  \<^verbatim>\<open>parse_rgb\<close> (alpha 0, lines 36 and 37), but the walk over the ancestors (line 78)
  compares with the string \<^verbatim>\<open>rgba(0, 0, 0, 0)\<close> only and returns it. With the element
  and its only ancestor transparent the resolved background is the transparent marker,
  not white; the same happens when an opaque white grandparent follows; and
  \<^verbatim>\<open>check_element_contrast\<close> returns \<^verbatim>\<open>None\<close> for the element.
\<close>

theorem zero_alpha_ancestor_drops_element:
  "parse_rgb (backgroundColor sample_styles) = Inr None
   \<and> parse_rgb ''rgba(255, 255, 255, 0)'' = Inr None
   \<and> resolve_background (sample_element [''rgba(255, 255, 255, 0)'']) sample_styles = Inr None
   \<and> resolve_background (sample_element [''rgba(255, 255, 255, 0)'', ''rgb(255, 255, 255)''])
        sample_styles = Inr None
   \<and> check_element_contrast sample_page ''p'' ''Body text'' = NoResult"
proof -
  have a: "parse_rgb (backgroundColor sample_styles) = Inr None"
    by (simp add: sample_styles_def parse_rgb_def)
  have b: "parse_rgb ''rgba(255, 255, 255, 0)'' = Inr None"
    by (simp add: eval_defs)
  have c: "resolve_background (sample_element (''rgba(255, 255, 255, 0)'' # rest)) sample_styles
             = Inr None" for rest
    by (simp add: resolve_background_def a b sample_element_def)
  have fg: "parse_rgb (color sample_styles) = Inr (Some [255, 255, 255])"
    by (simp add: sample_styles_def eval_defs)
  have vis: "is_visible (sample_element bgs) = Inr True"
    and st: "computed (sample_element bgs) = Inr sample_styles" for bgs
    by (simp_all add: sample_element_def)
  have d: "check_element_contrast sample_page ''p'' ''Body text'' = NoResult"
    by (simp add: check_element_contrast_def check_element_body_def sample_page_def
        vis st fg c)
  show ?thesis
    using a b c d by simp
qed

section \<open>Properties of the element check\<close>

lemma check_element_Check:
  assumes "check_element_contrast page sel d = Check c"
  shows "\<exists>st fg bg. computed (page sel) = Inr st
           \<and> parse_rgb (color st) = Inr (Some fg)
           \<and> resolve_background (page sel) st = Inr (Some bg)
           \<and> evaluate_contrast sel d st fg bg = Inr c"
  using assms
  by (auto simp: check_element_contrast_def check_element_body_def Let_def
      split: sum.splits option.splits if_splits)

lemma evaluate_contrast_Inr:
  assumes "evaluate_contrast sel d st fg bg = Inr c"
  shows "\<exists>ratio fs fw. call_contrast_ratio fg bg = Inr ratio
           \<and> py_float (py_replace ''px'' [] (fontSize st)) = Inr fs
           \<and> font_weight_of (fontWeight st) = Inr fw
           \<and> cc_fontSize c = fontSize st
           \<and> cc_fontWeight c = fontWeight st
           \<and> isLargeText c = (float_ge fs 24 \<or> (float_ge fs 18.66 \<and> 700 \<le> fw))
           \<and> required c = (if isLargeText c then 3.0 else 4.5)
           \<and> passes c = (required c \<le> ratio)
           \<and> contrastRatio c = py_round2 ratio"
  using assms
  by (auto simp: evaluate_contrast_def Let_def split: sum.splits)

lemma luminance_white: "get_luminance 255 255 255 = 1"
  by (simp add: get_luminance_def linearize_def)

lemma luminance_black: "get_luminance 0 0 0 = 0"
  by (simp add: get_luminance_def linearize_def)

lemma contrast_white_black: "get_contrast_ratio 255 255 255 0 0 0 = Inr 21"
  by (simp add: get_contrast_ratio_def luminance_white luminance_black)

lemma round_21: "py_round2 21 = 21"
  by (simp add: py_round2_def)




lemma powr_24_between:
  fixes x lo hi :: real
  assumes "0 < x" and "0 \<le> lo" and "0 \<le> hi"
    and "lo ^ 5 < x ^ 12" and "x ^ 12 < hi ^ 5"
  shows "lo < x powr 2.4 \<and> x powr 2.4 < hi"
proof -
  have y0: "0 \<le> x powr 2.4"
    by simp
  have "(x powr 2.4) ^ 5 = x powr (of_nat 5 * 2.4)"
    using assms(1) by (simp add: powr_power)
  also have "\<dots> = x powr 12"
    by simp
  also have "\<dots> = x ^ 12"
    using assms(1) powr_numeral [of x "num.Bit0 (num.Bit0 (num.Bit1 num.One))"] by simp
  finally have y5: "(x powr 2.4) ^ 5 = x ^ 12" .
  have "lo ^ 5 < (x powr 2.4) ^ 5"
    using assms(4) y5 by simp
  then have a: "lo < x powr 2.4"
    using y0 by (rule power_less_imp_less_base)
  have "(x powr 2.4) ^ 5 < hi ^ 5"
    using assms(5) y5 by simp
  then have b: "x powr 2.4 < hi"
    using assms(3) by (rule power_less_imp_less_base)
  show ?thesis
    using a b by simp
qed

lemma luminance_grey: "0.09975 < get_luminance 89 89 89 \<and> get_luminance 89 89 89 < 0.1"
proof -
  have x: "((89 / 255 + 0.055) / 1.055 :: real) = 4121 / 10761"
    by simp
  have b: "(0.09975::real) < (4121 / 10761) powr 2.4 \<and> ((4121 / 10761)::real) powr 2.4 < 0.1"
    by (rule powr_24_between) (simp_all add: power_divide)
  have "get_luminance 89 89 89 = (4121 / 10761) powr 2.4"
    by (simp add: get_luminance_def linearize_def Let_def)
  then show ?thesis
    using b by simp
qed

lemma round_near_three:
  assumes "2.995 < r" and "r < 3"
  shows "py_round2 r = 3"
proof -
  have f: "\<lfloor>r * 100\<rfloor> = 299"
    using assms by (intro floor_unique) simp_all
  have "1 / 2 < r * 100 - 299"
    using assms by simp
  then show ?thesis
    using f by (simp add: py_round2_def Let_def)
qed

lemma contrast_grey_black:
  "\<exists>r. get_contrast_ratio 89 89 89 0 0 0 = Inr r \<and> 2.995 < r \<and> r < 3"
proof -
  let ?l = "get_luminance 89 89 89"
  have l: "0.09975 < ?l" "?l < 0.1"
    using luminance_grey by simp_all
  have z: "get_luminance 0 0 0 = 0"
    by (rule luminance_black)
  have mx: "max ?l 0 = ?l" and mn: "min ?l 0 = 0"
    using l by (simp_all add: max_def min_def)
  have "get_contrast_ratio 89 89 89 0 0 0 = Inr ((?l + 0.05) / 0.05)"
    by (simp add: get_contrast_ratio_def Let_def z mx mn)
  moreover have "2.995 < (?l + 0.05) / 0.05" "(?l + 0.05) / 0.05 < 3"
    using l by simp_all
  ultimately show ?thesis
    by blast
qed

lemma grey_heading_check:
  "check_element_contrast heading_page ''h1'' ''Main heading'' = Check grey_check"
proof -
  obtain r where r: "get_contrast_ratio 89 89 89 0 0 0 = Inr r" "2.995 < r" "r < 3"
    using contrast_grey_black by blast
  have rd: "py_round2 r = 3"
    using r(2,3) by (rule round_near_three)
  have fg: "parse_rgb (color grey_styles) = Inr (Some [89, 89, 89])"
    by (simp add: grey_styles_def eval_defs)
  have bgp: "parse_rgb (backgroundColor grey_styles) = Inr (Some [0, 0, 0])"
    by (simp add: grey_styles_def eval_defs)
  have bg: "resolve_background el grey_styles = Inr (Some [0, 0, 0])" for el
    by (simp add: resolve_background_def bgp)
  have fs: "py_float (py_replace ''px'' [] (fontSize grey_styles)) = Inr (Finite 24)"
    by (simp add: grey_styles_def eval_defs)
  have fw: "font_weight_of (fontWeight grey_styles) = Inr 400"
    by (simp add: grey_styles_def font_weight_of_def eval_defs)
  have ev: "evaluate_contrast ''h1'' ''Main heading'' grey_styles [89, 89, 89] [0, 0, 0]
              = Inr grey_check"
    using r(3)
    by (simp add: evaluate_contrast_def call_contrast_ratio_def r(1) fs fw rd grey_check_def)
      (simp add: grey_styles_def)
  show ?thesis
    by (simp add: check_element_contrast_def check_element_body_def heading_page_def
        fg bg ev)
qed

lemma bold_heading_check:
  "check_element_contrast heading_page ''h2'' ''Section headings'' = Check bold_check"
proof -
  have fg: "parse_rgb (color bold_styles) = Inr (Some [255, 255, 255])"
    by (simp add: bold_styles_def eval_defs)
  have bgp: "parse_rgb (backgroundColor bold_styles) = Inr (Some [0, 0, 0])"
    by (simp add: bold_styles_def eval_defs)
  have bg: "resolve_background el bold_styles = Inr (Some [0, 0, 0])" for el
    by (simp add: resolve_background_def bgp)
  have fs: "py_float (py_replace ''px'' [] (fontSize bold_styles)) = Inr (Finite 20)"
    by (simp add: bold_styles_def eval_defs)
  have fw: "font_weight_of (fontWeight bold_styles) = Inr 700"
    by (simp add: bold_styles_def font_weight_of_def eval_defs)
  have ev: "evaluate_contrast ''h2'' ''Section headings'' bold_styles [255, 255, 255] [0, 0, 0]
              = Inr bold_check"
    by (simp add: evaluate_contrast_def call_contrast_ratio_def contrast_white_black fs fw
        round_21 bold_check_def)
      (simp add: bold_styles_def)
  show ?thesis
    by (simp add: check_element_contrast_def check_element_body_def heading_page_def
        fg bg ev)
qed

text \<open>
  C1, as the claim states it of the produced dictionary, fails at the boundary. Grey
  (89, 89, 89) on black at 24px has a ratio between 2.995 and 3: the dictionary stores
  \<^verbatim>\<open>contrastRatio\<close> 3.0 (line 109 rounds to two places) next to \<^verbatim>\<open>required\<close> 3.0,
  and \<^verbatim>\<open>passes\<close> is false.
\<close>

theorem stored_ratio_equal_but_fails:
  "check_element_contrast heading_page ''h1'' ''Main heading'' = Check grey_check
   \<and> contrastRatio grey_check = required grey_check
   \<and> \<not> passes grey_check"
  using grey_heading_check by (simp add: grey_check_def)

lemma py_round2_cases:
  "py_round2 r = of_int \<lfloor>r * 100\<rfloor> / 100 \<or> py_round2 r = of_int (\<lfloor>r * 100\<rfloor> + 1) / 100"
  by (simp add: py_round2_def Let_def)

lemma py_round2_lower:
  assumes "of_int k / 100 \<le> r"
  shows "of_int k / 100 \<le> py_round2 r"
proof -
  have "of_int k \<le> r * 100"
    using assms by simp
  then have "k \<le> \<lfloor>r * 100\<rfloor>"
    by (simp add: le_floor_iff)
  then have "(of_int k :: real) \<le> of_int \<lfloor>r * 100\<rfloor>"
    and "(of_int k :: real) \<le> of_int (\<lfloor>r * 100\<rfloor> + 1)"
    by simp_all
  then show ?thesis
    using py_round2_cases [of r] by (auto simp: divide_right_mono)
qed

lemma py_round2_above:
  assumes "of_int k / 100 < py_round2 r"
  shows "of_int k / 100 \<le> r"
proof -
  have fl: "of_int \<lfloor>r * 100\<rfloor> \<le> r * 100"
    by simp
  from py_round2_cases [of r] have "k \<le> \<lfloor>r * 100\<rfloor>"
  proof
    assume "py_round2 r = of_int \<lfloor>r * 100\<rfloor> / 100"
    then have "(of_int k :: real) < of_int \<lfloor>r * 100\<rfloor>"
      using assms by simp
    then show ?thesis
      by simp
  next
    assume "py_round2 r = of_int (\<lfloor>r * 100\<rfloor> + 1) / 100"
    then have "(of_int k :: real) < of_int (\<lfloor>r * 100\<rfloor> + 1)"
      using assms by simp
    then have "k < \<lfloor>r * 100\<rfloor> + 1"
      by (simp only: of_int_less_iff)
    then show ?thesis
      by simp
  qed
  then have "(of_int k :: real) \<le> of_int \<lfloor>r * 100\<rfloor>"
    by simp
  then have "of_int k \<le> r * 100"
    using fl by linarith
  then show ?thesis
    by simp
qed

lemma stored_ratio_and_threshold:
  assumes "t = 3 \<or> t = 4.5"
  shows "(t \<le> r \<longrightarrow> t \<le> py_round2 r) \<and> (t < py_round2 r \<longrightarrow> t \<le> r)"
proof -
  have "t = of_int 300 / 100 \<or> t = of_int 450 / 100"
    using assms by auto
  then show ?thesis
    using py_round2_lower [of 300 r] py_round2_lower [of 450 r]
      py_round2_above [of 300 r] py_round2_above [of 450 r]
    by auto
qed

lemma evaluate_contrast_record:
  assumes "evaluate_contrast sel d st fg bg = Inr c"
  shows "cc_color c = color st \<and> cc_backgroundColor c = backgroundColor st
       \<and> cc_fontSize c = fontSize st \<and> cc_fontWeight c = fontWeight st"
  using assms
  by (auto simp: evaluate_contrast_def Let_def split: sum.splits)

lemma font_weight_of_Inr:
  assumes "font_weight_of w = Inr fw"
  shows "if py_isdigit w then py_int w = Inr fw else fw = 400"
  using assms by (simp add: font_weight_of_def split: if_splits)

text \<open>
  C1, amended. In every check dictionary that \<^verbatim>\<open>check_element_contrast\<close> returns:
  \<^verbatim>\<open>isLargeText\<close> holds exactly when \<open>fs \<ge> 24\<close>, or \<open>fs \<ge> 18.66\<close> and \<open>fw \<ge> 700\<close>,
  where \<open>fs\<close> is \<^verbatim>\<open>float\<close> of the dictionary's \<^verbatim>\<open>fontSize\<close> without \<^verbatim>\<open>px\<close>, and \<open>fw\<close>
  is \<^verbatim>\<open>int\<close> of its \<^verbatim>\<open>fontWeight\<close> when that is a digit string and 400 otherwise;
  \<^verbatim>\<open>required\<close> is 3.0 when \<^verbatim>\<open>isLargeText\<close> holds and 4.5 otherwise; \<^verbatim>\<open>passes\<close> holds
  exactly when the unrounded ratio of the two parsed colours is at least \<^verbatim>\<open>required\<close>,
  equality included. The stored \<^verbatim>\<open>contrastRatio\<close> is that ratio rounded to two places:
  a passing dictionary has \<^verbatim>\<open>contrastRatio\<close> at least \<^verbatim>\<open>required\<close>, and a dictionary
  with \<^verbatim>\<open>contrastRatio\<close> above \<^verbatim>\<open>required\<close> passes.
\<close>

theorem check_record_flags:
  assumes "check_element_contrast page sel d = Check c"
  shows "\<exists>st fg bg ratio fs fw.
           computed (page sel) = Inr st
           \<and> cc_color c = color st
           \<and> parse_rgb (cc_color c) = Inr (Some fg)
           \<and> resolve_background (page sel) st = Inr (Some bg)
           \<and> call_contrast_ratio fg bg = Inr ratio
           \<and> py_float (py_replace ''px'' [] (cc_fontSize c)) = Inr fs
           \<and> (if py_isdigit (cc_fontWeight c) then py_int (cc_fontWeight c) = Inr fw
               else fw = 400)
           \<and> isLargeText c = (float_ge fs 24 \<or> (float_ge fs 18.66 \<and> 700 \<le> fw))
           \<and> required c = (if isLargeText c then 3.0 else 4.5)
           \<and> passes c = (required c \<le> ratio)
           \<and> contrastRatio c = py_round2 ratio
           \<and> (passes c \<longrightarrow> required c \<le> contrastRatio c)
           \<and> (required c < contrastRatio c \<longrightarrow> passes c)"
proof -
  from check_element_Check [OF assms] obtain st fg bg where
    st: "computed (page sel) = Inr st"
    and fg: "parse_rgb (color st) = Inr (Some fg)"
    and bg: "resolve_background (page sel) st = Inr (Some bg)"
    and ev: "evaluate_contrast sel d st fg bg = Inr c"
    by blast
  from evaluate_contrast_record [OF ev] have
    col: "cc_color c = color st"
    and size: "cc_fontSize c = fontSize st"
    and weight: "cc_fontWeight c = fontWeight st"
    by simp_all
  from evaluate_contrast_Inr [OF ev] obtain ratio fs fw where
    ratio: "call_contrast_ratio fg bg = Inr ratio"
    and fs: "py_float (py_replace ''px'' [] (fontSize st)) = Inr fs"
    and fw: "font_weight_of (fontWeight st) = Inr fw"
    and large: "isLargeText c = (float_ge fs 24 \<or> (float_ge fs 18.66 \<and> 700 \<le> fw))"
    and req: "required c = (if isLargeText c then 3.0 else 4.5)"
    and pass: "passes c = (required c \<le> ratio)"
    and stored: "contrastRatio c = py_round2 ratio"
    by blast
  have w: "if py_isdigit (cc_fontWeight c) then py_int (cc_fontWeight c) = Inr fw else fw = 400"
    using font_weight_of_Inr [OF fw] weight by simp
  have "required c = 3 \<or> required c = 4.5"
    using req by simp
  from stored_ratio_and_threshold [OF this, of ratio]
  have rel: "(passes c \<longrightarrow> required c \<le> contrastRatio c)
           \<and> (required c < contrastRatio c \<longrightarrow> passes c)"
    using pass stored by simp
  have fg': "parse_rgb (cc_color c) = Inr (Some fg)"
    using fg col by simp
  have fs': "py_float (py_replace ''px'' [] (cc_fontSize c)) = Inr fs"
    using fs size by simp
  show ?thesis
    using st col fg' bg ratio fs' w large req pass stored rel by blast
qed

theorem check_record_flags_witness:
  "check_element_contrast heading_page ''h2'' ''Section headings'' = Check bold_check
   \<and> py_isdigit (cc_fontWeight bold_check)
   \<and> py_int (cc_fontWeight bold_check) = Inr 700
   \<and> py_float (py_replace ''px'' [] (cc_fontSize bold_check)) = Inr (Finite 20)
   \<and> isLargeText bold_check \<and> required bold_check = 3 \<and> passes bold_check
   \<and> required bold_check < contrastRatio bold_check
   \<and> (\<exists>st fg bg ratio fs fw.
           computed (heading_page ''h2'') = Inr st
           \<and> cc_color bold_check = color st
           \<and> parse_rgb (cc_color bold_check) = Inr (Some fg)
           \<and> resolve_background (heading_page ''h2'') st = Inr (Some bg)
           \<and> call_contrast_ratio fg bg = Inr ratio
           \<and> py_float (py_replace ''px'' [] (cc_fontSize bold_check)) = Inr fs
           \<and> (if py_isdigit (cc_fontWeight bold_check)
               then py_int (cc_fontWeight bold_check) = Inr fw else fw = 400)
           \<and> isLargeText bold_check = (float_ge fs 24 \<or> (float_ge fs 18.66 \<and> 700 \<le> fw))
           \<and> required bold_check = (if isLargeText bold_check then 3.0 else 4.5)
           \<and> passes bold_check = (required bold_check \<le> ratio)
           \<and> contrastRatio bold_check = py_round2 ratio
           \<and> (passes bold_check \<longrightarrow> required bold_check \<le> contrastRatio bold_check)
           \<and> (required bold_check < contrastRatio bold_check \<longrightarrow> passes bold_check))"
proof -
  have a: "py_isdigit (cc_fontWeight bold_check)"
    and b: "py_int (cc_fontWeight bold_check) = Inr 700"
    and c: "py_float (py_replace ''px'' [] (cc_fontSize bold_check)) = Inr (Finite 20)"
    by (simp_all add: bold_check_def eval_defs)
  have d: "isLargeText bold_check \<and> required bold_check = 3 \<and> passes bold_check
           \<and> required bold_check < contrastRatio bold_check"
    by (simp add: bold_check_def)
  show ?thesis
    using a b c d bold_heading_check check_record_flags [OF bold_heading_check]
    by blast
qed



text \<open>
  The two totals printed by \<^verbatim>\<open>main\<close> count the entries of \<^verbatim>\<open>all_results\<close>, and
  nothing else: each entry is counted once, as passing or as failing.
\<close>

lemma totals_count_results:
  assumes "main_contrast env = Inr s"
  shows "all_results s = run_checks (ce_goto env) checks
       \<and> n_passes s = length (filter (\<lambda>r. passes r) (all_results s))
       \<and> n_failures s = length (filter (\<lambda>r. \<not> passes r) (all_results s))
       \<and> n_passes s + n_failures s = length (all_results s)"
proof -
  have "length (filter (\<lambda>r. passes r) xs) + length (filter (\<lambda>r. \<not> passes r) xs) = length xs"
    for xs :: "contrast_check list"
    by (rule sum_length_filter_compl)
  then show ?thesis
    using assms by (auto simp: main_contrast_def Let_def split: option.splits)
qed

text \<open>
  C6. When the foreground colour parses to the transparent marker, or the background
  resolves to the transparent marker, \<^verbatim>\<open>check_element_contrast\<close> returns no check
  dictionary, and the list of checks of the page is the one obtained without that
  selector: the element adds nothing to the results from which the passing and failing
  totals are counted.
\<close>

theorem unresolved_colour_skipped:
  assumes "computed (page sel) = Inr st"
    and "parse_rgb (color st) = Inr None \<or> resolve_background (page sel) st = Inr None"
  shows "(\<forall>c. check_element_contrast page sel d \<noteq> Check c)
       \<and> collect_checks page (pre @ \<lparr> selector = sel, description = d \<rparr> # post)
           = collect_checks page (pre @ post)"
proof -
  have no: "check_element_contrast page sel d \<noteq> Check c" for c
  proof
    assume "check_element_contrast page sel d = Check c"
    from check_element_Check [OF this] assms show False
      by auto
  qed
  have app: "collect_checks page (xs @ ys) = collect_checks page xs @ collect_checks page ys"
    for xs ys
    by (induction xs) (auto split: check_result.splits)
  have "collect_checks page (\<lparr> selector = sel, description = d \<rparr> # post)
          = collect_checks page post"
    using no by (simp split: check_result.splits)
  then show ?thesis
    using no by (simp add: app)
qed

lemma sample_label_styles:
  "computed (sample_page ''label'') = Inr (sample_styles \<lparr> color := ''rgba(0, 0, 0, 0)'' \<rparr>)"
  by (simp add: sample_page_def)

lemma sample_p_styles: "computed (sample_page ''p'') = Inr sample_styles"
  by (simp add: sample_page_def sample_element_def)

theorem unresolved_colour_skipped_witness:
  "parse_rgb (color (sample_styles \<lparr> color := ''rgba(0, 0, 0, 0)'' \<rparr>)) = Inr None
   \<and> (\<forall>c. check_element_contrast sample_page ''label'' ''Form labels'' \<noteq> Check c)
   \<and> collect_checks sample_page
        ([\<lparr> selector = ''button'', description = ''Sign In button text'' \<rparr>]
         @ \<lparr> selector = ''label'', description = ''Form labels'' \<rparr> # [])
       = collect_checks sample_page
           ([\<lparr> selector = ''button'', description = ''Sign In button text'' \<rparr>] @ [])
   \<and> resolve_background (sample_page ''p'') sample_styles = Inr None
   \<and> (\<forall>c. check_element_contrast sample_page ''p'' ''Body text'' \<noteq> Check c)
   \<and> collect_checks sample_page ([] @ \<lparr> selector = ''p'', description = ''Body text'' \<rparr> # [])
       = collect_checks sample_page ([] @ [])"
proof -
  have fg: "parse_rgb (color (sample_styles \<lparr> color := ''rgba(0, 0, 0, 0)'' \<rparr>)) = Inr None"
    by (simp add: parse_rgb_def)
  have bg: "resolve_background (sample_page ''p'') sample_styles = Inr None"
    by (simp add: sample_page_def resolve_background_def sample_element_def sample_styles_def
        eval_defs)
  show ?thesis
    using fg bg
      sample_label_styles sample_p_styles
      unresolved_colour_skipped [where page = sample_page and sel = "''label''"
        and st = "sample_styles \<lparr> color := ''rgba(0, 0, 0, 0)'' \<rparr>"
        and d = "''Form labels''"
        and pre = "[\<lparr> selector = ''button'', description = ''Sign In button text'' \<rparr>]"
        and post = "[]"]
      unresolved_colour_skipped [where page = sample_page and sel = "''p''"
        and st = sample_styles and d = "''Body text''" and pre = "[]" and post = "[]"]
    by blast
qed

section \<open>Properties of the rule-scanner audit and of the report\<close>

lemma audit_all_append:
  "audit_all visit (ps @ qs) = audit_all visit ps @ audit_all visit qs"
  by (induction ps) (auto split: option.splits)

text \<open>
  C4, as the claim states it, fails: on a visit where the scanner returns an error,
  \<^verbatim>\<open>audit_page\<close> returns \<^verbatim>\<open>None\<close>, and a run in which every page does so ends with
  an empty list of results: no marker stands for the page.
\<close>

theorem scanner_error_page_discarded:
  "audit_page scanner_failed_visit ''http://localhost:3000'' ''home'' = None
   \<and> main_audit \<lparr> ae_launch = None, ae_visit = (\<lambda>url. scanner_failed_visit) \<rparr>
       = Inr \<lparr> results = [], sum_violations = 0, sum_contrast = 0 \<rparr>"
  by (simp add: audit_page_def main_audit_def pages_to_audit_def scanner_failed_visit_def)

text \<open>
  C4, amended. When the scanner returns an error for a page, \<^verbatim>\<open>audit_page\<close> returns
  \<^verbatim>\<open>None\<close> for it; the loop of \<^verbatim>\<open>main\<close> records nothing for that page and goes on:
  the results are those of the other pages, in their order.
\<close>

theorem scanner_error_no_entry:
  assumes "pv_axe (visit (pi_url p)) = Inr (AxeError msg)"
  shows "audit_page (visit (pi_url p)) (pi_url p) (pi_name p) = None
       \<and> audit_all visit (ps @ p # qs) = audit_all visit (ps @ qs)"
proof -
  have none: "audit_page (visit (pi_url p)) (pi_url p) (pi_name p) = None"
    using assms by (simp add: audit_page_def split: option.splits)
  then have "audit_all visit (p # qs) = audit_all visit qs"
    by simp
  then show ?thesis
    using none by (simp add: audit_all_append)
qed

theorem scanner_error_no_entry_witness:
  "pv_axe scanner_failed_visit = Inr (AxeError ''axe is not defined'')
   \<and> audit_page scanner_failed_visit ''http://localhost:3000'' ''home'' = None
   \<and> audit_all (\<lambda>url. scanner_failed_visit)
        ([] @ \<lparr> pi_url = ''http://localhost:3000'', pi_name = ''home'' \<rparr> # tl pages_to_audit)
       = audit_all (\<lambda>url. scanner_failed_visit) ([] @ tl pages_to_audit)"
proof -
  have a: "pv_axe ((\<lambda>url. scanner_failed_visit)
             (pi_url \<lparr> pi_url = ''http://localhost:3000'', pi_name = ''home'' \<rparr>))
           = Inr (AxeError ''axe is not defined'')"
    by (simp add: scanner_failed_visit_def)
  show ?thesis
    using a scanner_error_no_entry [where visit = "\<lambda>url. scanner_failed_visit"
        and p = "\<lparr> pi_url = ''http://localhost:3000'', pi_name = ''home'' \<rparr>"
        and msg = "''axe is not defined''" and ps = "[]" and qs = "tl pages_to_audit"]
    by simp
qed

lemma audit_page_write_failure:
  "pv_write_json visit = Some e \<Longrightarrow> audit_page visit url name = None"
  by (simp add: audit_page_def split: option.splits sum.splits axe_results.splits)

text \<open>
  C5, as the claim states it, fails for the JSON file of a page: the write sits inside
  the \<^verbatim>\<open>try\<close> block of \<^verbatim>\<open>audit_page\<close>, so its failure is caught, the page returns
  \<^verbatim>\<open>None\<close>, and \<^verbatim>\<open>main\<close> runs to its end and returns normally, without the page.
\<close>

theorem page_json_write_failure_swallowed:
  "audit_page write_failed_visit ''http://localhost:3000'' ''home'' = None
   \<and> main_audit \<lparr> ae_launch = None, ae_visit = (\<lambda>url. write_failed_visit) \<rparr>
       = Inr \<lparr> results = [], sum_violations = 0, sum_contrast = 0 \<rparr>"
  by (simp add: audit_page_def main_audit_def pages_to_audit_def write_failed_visit_def)

text \<open>
  C5, amended. In scripts/contrast-checker.py a failure to write the report of the run
  is not caught: \<^verbatim>\<open>main\<close> ends with that exception. In accessibility-audit.py a
  failure to write the JSON file of a page is caught by \<^verbatim>\<open>audit_page\<close>, which returns
  \<^verbatim>\<open>None\<close>: the page is left out of the results, the other pages are audited as
  before, and \<^verbatim>\<open>main\<close>, once the browser has started, always returns its summary.
\<close>

theorem report_write_failure_outcomes:
  "(ce_launch cenv = None \<and> ce_write_report cenv = Some e \<longrightarrow> main_contrast cenv = Inl e)
   \<and> (pv_write_json (visit (pi_url p)) = Some e \<longrightarrow>
        audit_page (visit (pi_url p)) (pi_url p) (pi_name p) = None
        \<and> audit_all visit (ps @ p # qs) = audit_all visit (ps @ qs))
   \<and> (ae_launch aenv = None \<longrightarrow> (\<exists>summary. main_audit aenv = Inr summary))"
proof -
  have a: "ce_launch cenv = None \<and> ce_write_report cenv = Some e \<longrightarrow> main_contrast cenv = Inl e"
    by (simp add: main_contrast_def Let_def)
  have b: "audit_page (visit (pi_url p)) (pi_url p) (pi_name p) = None
           \<and> audit_all visit (ps @ p # qs) = audit_all visit (ps @ qs)"
    if "pv_write_json (visit (pi_url p)) = Some e"
  proof -
    have none: "audit_page (visit (pi_url p)) (pi_url p) (pi_name p) = None"
      using that by (rule audit_page_write_failure)
    then have "audit_all visit (p # qs) = audit_all visit qs"
      by simp
    then show ?thesis
      using none by (simp add: audit_all_append)
  qed
  have c: "ae_launch aenv = None \<longrightarrow> (\<exists>summary. main_audit aenv = Inr summary)"
    by (simp add: main_audit_def Let_def)
  show ?thesis
    using a b c by blast
qed

theorem report_write_failure_outcomes_witness:
  "main_contrast \<lparr> ce_launch = None, ce_goto = (\<lambda>url. Inl DriverError),
                   ce_write_report = Some IOError \<rparr> = Inl IOError
   \<and> audit_page write_failed_visit ''http://localhost:3000'' ''home'' = None
   \<and> audit_all (\<lambda>url. write_failed_visit)
        ([] @ \<lparr> pi_url = ''http://localhost:3000'', pi_name = ''home'' \<rparr> # [])
       = audit_all (\<lambda>url. write_failed_visit) ([] @ [])
   \<and> (\<exists>summary. main_audit \<lparr> ae_launch = None, ae_visit = (\<lambda>url. write_failed_visit) \<rparr>
                    = Inr summary)"
proof -
  have w: "pv_write_json write_failed_visit = Some IOError"
    by (simp add: write_failed_visit_def)
  show ?thesis
    using w report_write_failure_outcomes
      [where cenv = "\<lparr> ce_launch = None, ce_goto = (\<lambda>url. Inl DriverError),
                         ce_write_report = Some IOError \<rparr>"
         and e = IOError
         and visit = "\<lambda>url. write_failed_visit"
         and p = "\<lparr> pi_url = ''http://localhost:3000'', pi_name = ''home'' \<rparr>"
         and ps = "[]" and qs = "[]"
         and aenv = "\<lparr> ae_launch = None, ae_visit = (\<lambda>url. write_failed_visit) \<rparr>"]
    by simp
qed

end
